theory Spec2Isabelle
  imports Main "HOL-Library.Word"
begin

section \<open>Port claims of go-controller/pkg/node/port_claim.go\<close>

text \<open>
  The file keeps a map from \<open>utilnet.LocalPort\<close> to an open socket and drives it from
  Service add, update and delete events. The model is sequential: every call of
  \<open>open\<close> and \<open>close\<close> runs under \<open>activeSocketsLock\<close> from its first read of
  \<open>portsMap\<close> to its return, so a call is one atomic step on the state below. The
  \<open>klog\<close> lines are not modelled.
\<close>

subsection \<open>Data\<close>

text \<open>
  \<open>kapi.Protocol\<close> is a Go string type; its three constants are the strings below.
\<close>

definition ProtocolTCP :: string where "ProtocolTCP = ''TCP''"
definition ProtocolUDP :: string where "ProtocolUDP = ''UDP''"
definition ProtocolSCTP :: string where "ProtocolSCTP = ''SCTP''"

text \<open>
  \<open>intstr.IntOrString\<close>, the type of \<open>ServicePort.TargetPort\<close>: a struct of the tag
  \<open>Type\<close> (an \<open>int64\<close>, 0 for Int and 1 for String; \<open>Type_ios\<close> here, \<open>Type\<close>
  being the field of the Service), \<open>IntVal\<close> (an \<open>int32\<close>) and \<open>StrVal\<close>. No
  function of the file reads it, but \<open>reflect.DeepEqual\<close> on \<open>Spec.Ports\<close> compares
  its three fields, the one the tag does not select included.
\<close>

record IntOrString =
  Type_ios :: "64 word"
  IntVal :: "32 word"
  StrVal :: string

text \<open>
  \<open>kapi.ServicePort\<close>. \<open>AppProtocol\<close> is a \<open>*string\<close>: \<open>None\<close> is the nil pointer, and
  \<open>DeepEqual\<close> compares what two pointers point to.
\<close>

record ServicePort =
  Name :: string
  Protocol :: string
  AppProtocol :: "string option"
  Port :: "32 word"
  TargetPort :: IntOrString
  NodePort :: "32 word"

text \<open>
  \<open>kapi.Service\<close>, with the fields the file reads: \<open>Namespace\<close> and \<open>Name\<close> of the
  object (the latter is \<open>SvcName\<close> here, \<open>Name\<close> being taken by the port), and
  \<open>Spec.Type\<close>, \<open>Spec.Ports\<close>, \<open>Spec.ExternalIPs\<close>. A Go slice is a list option:
  \<open>None\<close> is the nil slice, which \<open>range\<close> and \<open>len\<close> treat as empty and
  which \<open>reflect.DeepEqual\<close> tells apart from an empty slice that is not nil.
\<close>

record Service =
  Namespace :: string
  SvcName :: string
  Type :: string
  Ports :: "ServicePort list option"
  ExternalIPs :: "string list option"

definition elems :: "'a list option \<Rightarrow> 'a list" where
  "elems sl = (case sl of None \<Rightarrow> [] | Some xs \<Rightarrow> xs)"

text \<open>
  \<open>utilnet.LocalPort\<close>, the key of \<open>portsMap\<close>. Go compares struct keys field by
  field, which is equality of records. \<open>LPort\<close> and \<open>LProtocol\<close> are the fields
  \<open>Port\<close> and \<open>Protocol\<close> of the Go struct.
\<close>

record LocalPort =
  Description :: string
  IP :: string
  IPFamily :: string
  LPort :: int
  LProtocol :: string

text \<open>
  Errors. One constructor for each \<open>fmt.Errorf\<close> of the file, in the order of the
  source, and \<open>Foreign\<close> for an error value that a collaborator returned and that the
  file hands on as it is (\<open>return err\<close>). Where the file formats a collaborator's error
  into its own message with \<open>%v\<close>, the constructor carries that message.
\<close>

datatype error =
    InvalidServicePort string string
  | UnknownProtocol string
  | OpenAgain string string "32 word"
  | LocalPortCreation string string "32 word" string
  | ClosingSocket string string "32 word" string
  | NeverOpened string string "32 word"
  | Foreign string

text \<open>
  A warning event of \<open>emitPortClaimEvent\<close>: namespace and name of the Service, the
  port and the error.
\<close>

type_synonym event = "string \<times> string \<times> 32 word \<times> error"

text \<open>\<open>net.IPNet\<close>: address bytes and mask bytes. Only the keys of \<open>localAddrSet\<close> are read.\<close>

type_synonym IPNet = "8 word list \<times> 8 word list"

text \<open>
  The state: the fields of \<open>portClaimWatcher\<close> (the recorder as the list of events
  it was given, the lock left out), and \<open>os\<close>, the state of the host that
  \<open>portOpener.OpenLocalPort\<close> and \<open>Closeable.Close\<close> act on. \<open>'c\<close> is the type of
  \<open>utilnet.Closeable\<close> handles.
\<close>

record ('os, 'c) portClaimWatcher =
  recorder :: "event list"
  localAddrSet :: "string \<rightharpoonup> IPNet"
  portsMap :: "LocalPort \<rightharpoonup> 'c"
  os :: "'os"

text \<open>
  The host outside the repository, taken as parameters: \<open>ParseIP ip\<close> says that
  \<open>net.ParseIP(ip)\<close> is not nil, \<open>OpenLocalPort\<close> is \<open>portOpener.OpenLocalPort\<close> and
  \<open>Close\<close> is the \<open>Close\<close> method of a handle. The last two return an error message or
  a result, and the host's next state.
\<close>

record ('os, 'c) host =
  ParseIP :: "string \<Rightarrow> bool"
  OpenLocalPort :: "LocalPort \<Rightarrow> 'os \<Rightarrow> (string + 'c) \<times> 'os"
  Close :: "'c \<Rightarrow> 'os \<Rightarrow> string option \<times> 'os"

text \<open>
  The two functions of package \<open>util\<close> that \<open>handleService\<close> and \<open>handlePort\<close> call.
  They are defined outside \<open>port_claim.go\<close>, so they are parameters.
  \<open>ValidatePort\<close> returns the message of its error, or \<open>None\<close>.
\<close>

record util =
  ServiceTypeHasNodePort :: "Service \<Rightarrow> bool"
  ValidatePort :: "string \<Rightarrow> 32 word \<Rightarrow> string option"

text \<open>
  The interface \<open>localPortHandler\<close> and the function type \<open>handler\<close>: a handler takes
  description, ip, port, protocol and Service, and returns its error (\<open>None\<close> is nil)
  and the next state.
\<close>

type_synonym 'st handler =
  "string \<Rightarrow> string \<Rightarrow> 32 word \<Rightarrow> string \<Rightarrow> Service \<Rightarrow> 'st \<Rightarrow> error option \<times> 'st"

record 'st localPortHandler =
  open_h :: "'st handler"
  close_h :: "'st handler"

subsection \<open>Constructor and event recorder\<close>

definition newPortClaimWatcher ::
  "event list \<Rightarrow> (string \<rightharpoonup> IPNet) \<Rightarrow> 'os \<Rightarrow> ('os, 'c) portClaimWatcher" where
  "newPortClaimWatcher rec las os0 =
     \<lparr>recorder = rec, localAddrSet = las, portsMap = Map.empty, os = os0\<rparr>"

definition emitPortClaimEvent ::
  "Service \<Rightarrow> 32 word \<Rightarrow> error \<Rightarrow> ('os, 'c) portClaimWatcher \<Rightarrow> ('os, 'c) portClaimWatcher" where
  "emitPortClaimEvent svc port err p =
     p\<lparr>recorder := recorder p @ [(Namespace svc, SvcName svc, port, err)]\<rparr>"

subsection \<open>utilnet.NewLocalPort\<close>

text \<open>
  \<open>NewLocalPort\<close> belongs to the library k8s.io/utils/net. It refuses a protocol other
  than TCP and UDP, an IP family other than the empty one, 4 and 6, a non-empty ip that
  does not parse, and an ip that parses into the other family than the one asked for;
  otherwise it returns the struct of its arguments. The file always passes the empty
  family, for which the last check cannot fail, so that check is left out.
\<close>

definition NewLocalPort ::
  "('os, 'c) host \<Rightarrow> string \<Rightarrow> string \<Rightarrow> string \<Rightarrow> int \<Rightarrow> string \<Rightarrow> string + LocalPort" where
  "NewLocalPort h desc ip ipFamily port protocol =
     (if protocol \<noteq> ProtocolTCP \<and> protocol \<noteq> ProtocolUDP
        then Inl (''Unsupported protocol '' @ protocol)
      else if ipFamily \<noteq> '''' \<and> ipFamily \<noteq> ''4'' \<and> ipFamily \<noteq> ''6''
        then Inl (''Invalid IP family '' @ ipFamily)
      else if ip \<noteq> '''' \<and> \<not> ParseIP h ip
        then Inl (''invalid ip address '' @ ip)
      else Inr \<lparr>Description = desc, IP = ip, IPFamily = ipFamily,
                LPort = port, LProtocol = protocol\<rparr>)"

subsection \<open>open and close\<close>

text \<open>
  The part of \<open>open\<close> after \<open>activeSocketsLock.Lock()\<close> (lines 187 to 197).
\<close>

definition open_locked ::
  "('os, 'c) host \<Rightarrow> LocalPort \<Rightarrow> 32 word \<Rightarrow> Service \<Rightarrow> ('os, 'c) portClaimWatcher
     \<Rightarrow> error option \<times> ('os, 'c) portClaimWatcher" where
  "open_locked h localPort port svc p =
     (case portsMap p localPort of
        Some c \<Rightarrow> (Some (OpenAgain (Namespace svc) (SvcName svc) port), p)
      | None \<Rightarrow>
          (case OpenLocalPort h localPort (os p) of
             (Inl err, os') \<Rightarrow>
               (Some (Foreign err), emitPortClaimEvent svc port (Foreign err) (p\<lparr>os := os'\<rparr>))
           | (Inr closeable, os') \<Rightarrow>
               (None, p\<lparr>os := os', portsMap := (portsMap p)(localPort \<mapsto> closeable)\<rparr>)))"

text \<open>
  The method \<open>open\<close> of \<open>portClaimWatcher\<close>, \<open>pcw_open\<close> here: the address check
  (lines 162 to 167), the switch on the protocol (170 to 178), the error exit (179 to
  182), then the locked part.
\<close>

definition pcw_open ::
  "('os, 'c) host \<Rightarrow> ('os, 'c) portClaimWatcher handler" where
  "pcw_open h desc ip port protocol svc p =
     (if ip \<noteq> '''' \<and> localAddrSet p ip = None then (None, p)
      else if protocol = ProtocolTCP \<or> protocol = ProtocolUDP then
        (case NewLocalPort h desc ip '''' (sint port) protocol of
           Inl e \<Rightarrow> (Some (Foreign e), emitPortClaimEvent svc port (Foreign e) p)
         | Inr localPort \<Rightarrow> open_locked h localPort port svc p)
      else if protocol = ProtocolSCTP then (None, p)
      else (Some (UnknownProtocol protocol),
            emitPortClaimEvent svc port (UnknownProtocol protocol) p))"

text \<open>
  The part of \<open>close\<close> after \<open>activeSocketsLock.Lock()\<close> (lines 221 to 228).
\<close>

definition close_locked ::
  "('os, 'c) host \<Rightarrow> LocalPort \<Rightarrow> 32 word \<Rightarrow> Service \<Rightarrow> ('os, 'c) portClaimWatcher
     \<Rightarrow> error option \<times> ('os, 'c) portClaimWatcher" where
  "close_locked h localPort port svc p =
     (case portsMap p localPort of
        Some c \<Rightarrow>
          (case Close h c (os p) of
             (Some err, os') \<Rightarrow>
               (Some (ClosingSocket (Namespace svc) (SvcName svc) port err), p\<lparr>os := os'\<rparr>)
           | (None, os') \<Rightarrow>
               (None, p\<lparr>os := os', portsMap := (portsMap p)(localPort := None)\<rparr>))
      | None \<Rightarrow> (Some (NeverOpened (Namespace svc) (SvcName svc) port), p))"

text \<open>
  The method \<open>close\<close> of \<open>portClaimWatcher\<close>, \<open>pcw_close\<close> here: the protocol check
  (lines 203 to 205), the address check (206 to 211), \<open>NewLocalPort\<close> and its error
  (212 to 215), then the locked part.
\<close>

definition pcw_close ::
  "('os, 'c) host \<Rightarrow> ('os, 'c) portClaimWatcher handler" where
  "pcw_close h desc ip port protocol svc p =
     (if protocol \<noteq> ProtocolTCP \<and> protocol \<noteq> ProtocolUDP then (None, p)
      else if ip \<noteq> '''' \<and> localAddrSet p ip = None then (None, p)
      else
        (case NewLocalPort h desc ip '''' (sint port) protocol of
           Inl e \<Rightarrow> (Some (LocalPortCreation (Namespace svc) (SvcName svc) port e), p)
         | Inr localPort \<Rightarrow> close_locked h localPort port svc p))"

text \<open>The value \<open>initPortClaimWatcher\<close> stores in the package variable \<open>portHandler\<close>.\<close>

definition portHandler :: "('os, 'c) host \<Rightarrow> ('os, 'c) portClaimWatcher localPortHandler" where
  "portHandler h = \<lparr>open_h = pcw_open h, close_h = pcw_close h\<rparr>"

subsection \<open>Service events\<close>

definition nodePortDescr :: string where "nodePortDescr = ''nodePort for''"
definition externalPortDescr :: string where "externalPortDescr = ''externalIP for''"

definition getDescription :: "string \<Rightarrow> Service \<Rightarrow> bool \<Rightarrow> string" where
  "getDescription portName svc nodePort =
     (let svcName = Namespace svc @ ''/'' @ SvcName svc;
          prefix = (if nodePort then nodePortDescr else externalPortDescr)
      in if length portName = 0 then prefix @ '' '' @ svcName
         else prefix @ '' '' @ svcName @ '':'' @ portName)"

definition handlePort ::
  "util \<Rightarrow> string \<Rightarrow> Service \<Rightarrow> string \<Rightarrow> 32 word \<Rightarrow> string \<Rightarrow> 'st handler
     \<Rightarrow> 'st \<Rightarrow> error option \<times> 'st" where
  "handlePort u desc svc ip port protocol handler s =
     (case ValidatePort u protocol port of
        Some err \<Rightarrow> (Some (InvalidServicePort (SvcName svc) err), s)
      | None \<Rightarrow> handler desc ip port protocol svc s)"

text \<open>
  The loops of \<open>handleService\<close>. Each takes the errors gathered so far and the state
  and returns both, as the Go loop appends to \<open>errors\<close> and the handler mutates the
  watcher. \<open>handleExternalIPs\<close> is the inner loop over \<open>svc.Spec.ExternalIPs\<close> (lines 111
  to 116), \<open>handleSvcPorts\<close> the outer loop over \<open>svc.Spec.Ports\<close> (lines 104 to 117).
\<close>

fun handleExternalIPs ::
  "util \<Rightarrow> Service \<Rightarrow> 'st handler \<Rightarrow> ServicePort \<Rightarrow> string list
     \<Rightarrow> error list \<times> 'st \<Rightarrow> error list \<times> 'st" where
  "handleExternalIPs u svc handler svcPort [] (errors, s) = (errors, s)"
| "handleExternalIPs u svc handler svcPort (externalIP # rest) (errors, s) =
     (case handlePort u (getDescription (Name svcPort) svc False) svc externalIP
             (Port svcPort) (Protocol svcPort) handler s of
        (Some err, s') \<Rightarrow> handleExternalIPs u svc handler svcPort rest (errors @ [err], s')
      | (None, s') \<Rightarrow> handleExternalIPs u svc handler svcPort rest (errors, s'))"

definition handleNodePort ::
  "util \<Rightarrow> Service \<Rightarrow> 'st handler \<Rightarrow> ServicePort \<Rightarrow> error list \<times> 'st \<Rightarrow> error list \<times> 'st" where
  "handleNodePort u svc handler svcPort es =
     (case es of (errors, s) \<Rightarrow>
        if ServiceTypeHasNodePort u svc then
          (case handlePort u (getDescription (Name svcPort) svc True) svc ''''
                  (NodePort svcPort) (Protocol svcPort) handler s of
             (Some err, s') \<Rightarrow> (errors @ [err], s')
           | (None, s') \<Rightarrow> (errors, s'))
        else (errors, s))"

fun handleSvcPorts ::
  "util \<Rightarrow> Service \<Rightarrow> 'st handler \<Rightarrow> ServicePort list
     \<Rightarrow> error list \<times> 'st \<Rightarrow> error list \<times> 'st" where
  "handleSvcPorts u svc handler [] es = es"
| "handleSvcPorts u svc handler (svcPort # rest) es =
     handleSvcPorts u svc handler rest
       (handleExternalIPs u svc handler svcPort (elems (ExternalIPs svc))
          (handleNodePort u svc handler svcPort es))"

definition handleService :: "util \<Rightarrow> Service \<Rightarrow> 'st handler \<Rightarrow> 'st \<Rightarrow> error list \<times> 'st" where
  "handleService u svc handler s =
     (if \<not> ServiceTypeHasNodePort u svc \<and> length (elems (ExternalIPs svc)) = 0 then ([], s)
      else handleSvcPorts u svc handler (elems (Ports svc)) ([], s))"

definition addServicePortClaim ::
  "util \<Rightarrow> 'st localPortHandler \<Rightarrow> Service \<Rightarrow> 'st \<Rightarrow> error list \<times> 'st" where
  "addServicePortClaim u ph svc s = handleService u svc (open_h ph) s"

definition deleteServicePortClaim ::
  "util \<Rightarrow> 'st localPortHandler \<Rightarrow> Service \<Rightarrow> 'st \<Rightarrow> error list \<times> 'st" where
  "deleteServicePortClaim u ph svc s = handleService u svc (close_h ph) s"

text \<open>
  \<open>updateServicePortClaim\<close>. \<open>reflect.DeepEqual\<close> on the two slices is equality of the
  list options. The nil result of the first branch and the empty slice are both \<open>[]\<close>:
  the caller reads the result through \<open>len\<close> and \<open>range\<close> only.
\<close>

definition updateServicePortClaim ::
  "util \<Rightarrow> 'st localPortHandler \<Rightarrow> Service \<Rightarrow> Service \<Rightarrow> 'st \<Rightarrow> error list \<times> 'st" where
  "updateServicePortClaim u ph oldSvc newSvc s =
     (if ExternalIPs oldSvc = ExternalIPs newSvc \<and> Ports oldSvc = Ports newSvc then ([], s)
      else
        (case deleteServicePortClaim u ph oldSvc s of
           (errors1, s1) \<Rightarrow>
             (case addServicePortClaim u ph newSvc s1 of
                (errors2, s2) \<Rightarrow> (errors1 @ errors2, s2))))"

subsection \<open>Identity of a claim, states the watcher can be in\<close>

text \<open>
  The key under which \<open>open\<close> and \<open>close\<close> look a claim up: the struct that
  \<open>NewLocalPort(desc, ip, "", int(port), protocol)\<close> returns. The conversion
  \<open>int(port)\<close> of an \<open>int32\<close> is the signed value.
\<close>

definition claimKey :: "string \<Rightarrow> string \<Rightarrow> 32 word \<Rightarrow> string \<Rightarrow> LocalPort" where
  "claimKey desc ip port protocol =
     \<lparr>Description = desc, IP = ip, IPFamily = '''', LPort = sint port, LProtocol = protocol\<rparr>"

text \<open>
  The states of a watcher: the one \<open>newPortClaimWatcher\<close> builds, for any recorder,
  address set and host state, and every state that calls of \<open>open\<close> and \<open>close\<close> with
  any arguments lead to, the host changing as it likes between two calls.
\<close>

inductive reachable :: "('os, 'c) host \<Rightarrow> ('os, 'c) portClaimWatcher \<Rightarrow> bool"
  for h :: "('os, 'c) host" where
  init: "reachable h (newPortClaimWatcher rec las os0)"
| step_open: "reachable h p \<Longrightarrow> reachable h (snd (pcw_open h desc ip port protocol svc p))"
| step_close: "reachable h p \<Longrightarrow> reachable h (snd (pcw_close h desc ip port protocol svc p))"
| step_os: "reachable h p \<Longrightarrow> reachable h (p\<lparr>os := os'\<rparr>)"

text \<open>
  What holds of every key of \<open>portsMap\<close> in such a state: it came out of
  \<open>NewLocalPort\<close> for a claim that passed the address check.
\<close>

definition ledger_ok :: "('os, 'c) host \<Rightarrow> ('os, 'c) portClaimWatcher \<Rightarrow> bool" where
  "ledger_ok h p =
     (\<forall>lp c. portsMap p lp = Some c \<longrightarrow>
        (LProtocol lp = ProtocolTCP \<or> LProtocol lp = ProtocolUDP) \<and> IPFamily lp = '''' \<and>
        (IP lp = '''' \<or> (localAddrSet p (IP lp) \<noteq> None \<and> ParseIP h (IP lp))))"

subsection \<open>The reconciliation as the specification words it\<close>

text \<open>
  A claim of the specification: description, address, port, protocol and owning
  Service.
\<close>

record PortClaim =
  claim_description :: string
  claim_address :: string
  claim_port :: "32 word"
  claim_protocol :: string
  claim_owner :: Service

text \<open>
  The Claim Extractor of the specification (section 4.1): nothing for a Service that
  neither exposes a node port nor has external IPs; otherwise, for each declared port in
  order, the node port claim (empty address, the port's \<open>nodePort\<close>) when the Service
  exposes node ports, then one claim for each external IP (that address, the port's
  \<open>port\<close>).
\<close>

definition nodePortClaims :: "util \<Rightarrow> Service \<Rightarrow> ServicePort \<Rightarrow> PortClaim list" where
  "nodePortClaims u svc sp =
     (if ServiceTypeHasNodePort u svc
      then [\<lparr>claim_description = getDescription (Name sp) svc True, claim_address = '''',
              claim_port = NodePort sp, claim_protocol = Protocol sp, claim_owner = svc\<rparr>]
      else [])"

definition externalIPClaim :: "Service \<Rightarrow> ServicePort \<Rightarrow> string \<Rightarrow> PortClaim" where
  "externalIPClaim svc sp externalIP =
     \<lparr>claim_description = getDescription (Name sp) svc False, claim_address = externalIP,
       claim_port = Port sp, claim_protocol = Protocol sp, claim_owner = svc\<rparr>"

definition Extractor :: "util \<Rightarrow> Service \<Rightarrow> PortClaim list" where
  "Extractor u svc =
     (if \<not> ServiceTypeHasNodePort u svc \<and> elems (ExternalIPs svc) = [] then []
      else concat (map (\<lambda>sp. nodePortClaims u svc sp @
                              map (externalIPClaim svc sp) (elems (ExternalIPs svc)))
                       (elems (Ports svc))))"

text \<open>
  One pass of the Reconciliation Driver (sections 4.1 and 4.3): each claim of the list
  in turn is validated and, when valid, given to the Ledger operation; every error is
  collected and no error stops the pass.
\<close>

definition driveClaim :: "util \<Rightarrow> 'st handler \<Rightarrow> PortClaim \<Rightarrow> 'st \<Rightarrow> error option \<times> 'st" where
  "driveClaim u operation c s =
     (case ValidatePort u (claim_protocol c) (claim_port c) of
        Some err \<Rightarrow> (Some (InvalidServicePort (SvcName (claim_owner c)) err), s)
      | None \<Rightarrow> operation (claim_description c) (claim_address c) (claim_port c)
                 (claim_protocol c) (claim_owner c) s)"

fun drivePass :: "util \<Rightarrow> 'st handler \<Rightarrow> PortClaim list \<Rightarrow> 'st \<Rightarrow> error list \<times> 'st" where
  "drivePass u operation [] s = ([], s)"
| "drivePass u operation (c # cs) s =
     (case driveClaim u operation c s of
        (r, s') \<Rightarrow>
          (case drivePass u operation cs s' of
             (errs, s'') \<Rightarrow> ((case r of None \<Rightarrow> [] | Some e \<Rightarrow> [e]) @ errs, s'')))"

text \<open>
  \<open>Updated(old, new)\<close> when the specs differ, in the words of section 4.3: every claim
  derived from the old spec is closed, then every claim derived from the new spec is
  opened, and the errors of the two passes are returned one after the other.
\<close>

definition spec_Updated ::
  "util \<Rightarrow> 'st localPortHandler \<Rightarrow> Service \<Rightarrow> Service \<Rightarrow> 'st \<Rightarrow> error list \<times> 'st" where
  "spec_Updated u ph oldSvc newSvc s =
     (case drivePass u (close_h ph) (Extractor u oldSvc) s of
        (errors1, s1) \<Rightarrow>
          (case drivePass u (open_h ph) (Extractor u newSvc) s1 of
             (errors2, s2) \<Rightarrow> (errors1 @ errors2, s2)))"

subsection \<open>A host and a util package to run the model on\<close>

text \<open>
  A host for the examples. Its state counts the calls of \<open>OpenLocalPort\<close> and \<open>Close\<close>
  made so far; a handle is the \<open>LocalPort\<close> it was opened for; \<open>openOk\<close> and
  \<open>closeOk\<close> say which calls succeed; two addresses parse.
\<close>

definition testHost :: "(LocalPort \<Rightarrow> bool) \<Rightarrow> (LocalPort \<Rightarrow> bool) \<Rightarrow> (nat, LocalPort) host" where
  "testHost openOk closeOk =
     \<lparr>ParseIP = (\<lambda>ip. ip = ''10.0.0.1'' \<or> ip = ''192.168.1.5''),
       OpenLocalPort = (\<lambda>lp n. (if openOk lp then Inr lp
                                 else Inl ''bind: address already in use'', Suc n)),
       Close = (\<lambda>c n. (if closeOk c then None
                        else Some ''close: bad file descriptor'', Suc n))\<rparr>"

text \<open>
  Modelled from the spec: \<open>util.ServiceTypeHasNodePort\<close> and \<open>util.ValidatePort\<close> are
  not among the source files. The specification has the type NodePort expose node ports
  (section 8), a port between 1 and 65535 and a protocol among TCP, UDP and SCTP
  (sections 3 and 7). The examples run on this instance, and so does the existence
  statement C9, which needs one type with node ports and one without; every other theorem
  holds for every \<open>util\<close>.
\<close>

definition specUtil :: util where
  "specUtil =
     \<lparr>ServiceTypeHasNodePort = (\<lambda>svc. Type svc = ''NodePort''),
       ValidatePort = (\<lambda>protocol port.
          if sint port \<le> 0 \<or> sint port > 65535 then Some ''invalid port number''
          else if protocol = ProtocolTCP \<or> protocol = ProtocolUDP \<or> protocol = ProtocolSCTP
            then None
          else Some ''invalid protocol'')\<rparr>"

text \<open>
  A handler that only writes down the calls it gets, to count Ledger operations.
\<close>

definition logHandler ::
  "(string \<times> string \<times> string \<times> 32 word \<times> string) list localPortHandler" where
  "logHandler =
     \<lparr>open_h = (\<lambda>desc ip port protocol svc calls.
                  (None, calls @ [(''open'', desc, ip, port, protocol)])),
       close_h = (\<lambda>desc ip port protocol svc calls.
                  (None, calls @ [(''close'', desc, ip, port, protocol)]))\<rparr>"

text \<open>The Service \<open>ns1/svcA\<close> of the specification's example, and a watcher at start.\<close>

definition svcA :: Service where
  "svcA = \<lparr>Namespace = ''ns1'', SvcName = ''svcA'', Type = ''NodePort'',
           Ports = Some [\<lparr>Name = '''', Protocol = ''TCP'', AppProtocol = None, Port = 8080,
                          TargetPort = \<lparr>Type_ios = 0, IntVal = 8080, StrVal = ''''\<rparr>, NodePort = 30080\<rparr>],
           ExternalIPs = None\<rparr>"

definition watcher0 :: "(nat, LocalPort) portClaimWatcher" where
  "watcher0 = newPortClaimWatcher [] [''10.0.0.1'' \<mapsto> ([10, 0, 0, 1], [255, 255, 255, 0])] 0"

text \<open>A host on which every call succeeds, and the watcher after one \<open>open\<close>.\<close>

definition okHost :: "(nat, LocalPort) host" where
  "okHost = testHost (\<lambda>lp. True) (\<lambda>c. True)"

definition watcher1 :: "(nat, LocalPort) portClaimWatcher" where
  "watcher1 = snd (pcw_open okHost ''nodePort for ns1/svcA'' '''' 30080 ProtocolTCP svcA watcher0)"

text \<open>A host on which no \<open>Close\<close> succeeds, and the watcher after one \<open>open\<close> on it.\<close>

definition badCloseHost :: "(nat, LocalPort) host" where
  "badCloseHost = testHost (\<lambda>lp. True) (\<lambda>c. False)"

definition watcher1b :: "(nat, LocalPort) portClaimWatcher" where
  "watcher1b = snd (pcw_open badCloseHost ''nodePort for ns1/svcA'' '''' 30080 ProtocolTCP svcA watcher0)"

text \<open>A second Service, \<open>ns2/svcB\<close>, asking for the node port of \<open>svcA\<close>.\<close>

definition svcB :: Service where
  "svcB = \<lparr>Namespace = ''ns2'', SvcName = ''svcB'', Type = ''NodePort'',
           Ports = Some [\<lparr>Name = ''web'', Protocol = ''TCP'', AppProtocol = None, Port = 80,
                          TargetPort = \<lparr>Type_ios = 1, IntVal = 0, StrVal = ''http''\<rparr>, NodePort = 30080\<rparr>],
           ExternalIPs = None\<rparr>"

text \<open>
  \<open>svcA\<close> with a \<open>TargetPort\<close> that differs in the string field only, which the Int
  tag leaves unused: the two \<open>Ports\<close> are not deeply equal.
\<close>

definition svcA_junk :: Service where
  "svcA_junk = svcA\<lparr>Ports :=
      Some [\<lparr>Name = '''', Protocol = ''TCP'', AppProtocol = None, Port = 8080,
             TargetPort = \<lparr>Type_ios = 0, IntVal = 8080, StrVal = ''junk''\<rparr>,
             NodePort = 30080\<rparr>]\<rparr>"

text \<open>
  Modelled from the spec: \<open>getLocalAddrs\<close>, which fills \<open>localAddrSet\<close> at start, is
  not among the source files. The specification (section 3) has the LocalAddressSet a
  read-only set of IP strings: every key parses as an IP.
\<close>

definition localAddrs_are_IPs :: "('os, 'c) host \<Rightarrow> ('os, 'c) portClaimWatcher \<Rightarrow> bool" where
  "localAddrs_are_IPs h p = (\<forall>ip. localAddrSet p ip \<noteq> None \<longrightarrow> ParseIP h ip)"

section \<open>Properties\<close>

subsection \<open>Auxiliary facts\<close>

lemma proto_distinct [simp]:
  "ProtocolSCTP \<noteq> ProtocolTCP" "ProtocolSCTP \<noteq> ProtocolUDP" "ProtocolTCP \<noteq> ProtocolUDP"
  "ProtocolTCP \<noteq> ProtocolSCTP" "ProtocolUDP \<noteq> ProtocolSCTP" "ProtocolUDP \<noteq> ProtocolTCP"
  by (simp_all add: ProtocolTCP_def ProtocolUDP_def ProtocolSCTP_def)

lemma NewLocalPort_claimKey:
  "protocol = ProtocolTCP \<or> protocol = ProtocolUDP \<Longrightarrow> ip = '''' \<or> ParseIP h ip \<Longrightarrow>
   NewLocalPort h desc ip '''' (sint port) protocol = Inr (claimKey desc ip port protocol)"
  unfolding NewLocalPort_def claimKey_def by auto

lemma NewLocalPort_cases:
  "NewLocalPort h desc ip '''' n protocol =
     (if protocol \<noteq> ProtocolTCP \<and> protocol \<noteq> ProtocolUDP
        then Inl (''Unsupported protocol '' @ protocol)
      else if ip \<noteq> '''' \<and> \<not> ParseIP h ip then Inl (''invalid ip address '' @ ip)
      else Inr \<lparr>Description = desc, IP = ip, IPFamily = '''', LPort = n, LProtocol = protocol\<rparr>)"
  unfolding NewLocalPort_def by simp


lemma open_locked_cases:
  "open_locked h lp port svc p =
     (if portsMap p lp \<noteq> None then (Some (OpenAgain (Namespace svc) (SvcName svc) port), p)
      else if isl (fst (OpenLocalPort h lp (os p)))
        then (Some (Foreign (projl (fst (OpenLocalPort h lp (os p))))),
              emitPortClaimEvent svc port (Foreign (projl (fst (OpenLocalPort h lp (os p)))))
                (p\<lparr>os := snd (OpenLocalPort h lp (os p))\<rparr>))
      else (None, p\<lparr>os := snd (OpenLocalPort h lp (os p)),
                     portsMap := (portsMap p)(lp \<mapsto> projr (fst (OpenLocalPort h lp (os p))))\<rparr>))"
  unfolding open_locked_def
  by (simp split: option.split prod.split sum.split)

lemma close_locked_cases:
  "close_locked h lp port svc p =
     (case portsMap p lp of
        None \<Rightarrow> (Some (NeverOpened (Namespace svc) (SvcName svc) port), p)
      | Some c \<Rightarrow>
          (if fst (Close h c (os p)) \<noteq> None
           then (Some (ClosingSocket (Namespace svc) (SvcName svc) port (the (fst (Close h c (os p))))),
                 p\<lparr>os := snd (Close h c (os p))\<rparr>)
           else (None, p\<lparr>os := snd (Close h c (os p)), portsMap := (portsMap p)(lp := None)\<rparr>)))"
  unfolding close_locked_def
  by (simp split: option.split prod.split)

lemma localAddrSet_open_locked:
  "localAddrSet (snd (open_locked h lp port svc p)) = localAddrSet p"
  by (simp add: open_locked_cases emitPortClaimEvent_def)

lemma localAddrSet_close_locked:
  "localAddrSet (snd (close_locked h lp port svc p)) = localAddrSet p"
  by (simp add: close_locked_cases split: option.split)

lemma localAddrSet_open:
  "localAddrSet (snd (pcw_open h desc ip port protocol svc p)) = localAddrSet p"
  unfolding pcw_open_def
  by (simp add: localAddrSet_open_locked emitPortClaimEvent_def split: sum.split)

lemma localAddrSet_close:
  "localAddrSet (snd (pcw_close h desc ip port protocol svc p)) = localAddrSet p"
  unfolding pcw_close_def
  by (simp add: localAddrSet_close_locked split: sum.split)


lemma ledger_ok_open_locked:
  assumes ok: "ledger_ok h p"
    and lp: "LProtocol lp = ProtocolTCP \<or> LProtocol lp = ProtocolUDP" "IPFamily lp = ''''"
            "IP lp = '''' \<or> (localAddrSet p (IP lp) \<noteq> None \<and> ParseIP h (IP lp))"
  shows "ledger_ok h (snd (open_locked h lp port svc p))"
  using ok lp unfolding ledger_ok_def
  by (simp add: open_locked_cases emitPortClaimEvent_def)

lemma ledger_ok_close_locked:
  assumes ok: "ledger_ok h p"
  shows "ledger_ok h (snd (close_locked h lp port svc p))"
  using ok unfolding ledger_ok_def
  by (simp add: close_locked_cases split: option.split)

lemma ledger_ok_emit:
  "ledger_ok h (emitPortClaimEvent svc port e p) = ledger_ok h p"
  by (simp add: ledger_ok_def emitPortClaimEvent_def)

lemma ledger_ok_open:
  assumes ok: "ledger_ok h p"
  shows "ledger_ok h (snd (pcw_open h desc ip port protocol svc p))"
proof (cases "ip \<noteq> '''' \<and> localAddrSet p ip = None")
  case True
  with ok show ?thesis by (simp add: pcw_open_def)
next
  case local: False
  show ?thesis
  proof (cases "protocol = ProtocolTCP \<or> protocol = ProtocolUDP")
    case False
    with ok local show ?thesis by (simp add: pcw_open_def ledger_ok_emit)
  next
    case tcpudp: True
    show ?thesis
    proof (cases "NewLocalPort h desc ip '''' (sint port) protocol")
      case (Inl e)
      have "pcw_open h desc ip port protocol svc p =
              (Some (Foreign e), emitPortClaimEvent svc port (Foreign e) p)"
        unfolding pcw_open_def using local tcpudp Inl by (simp only: if_False if_True sum.case)
      with ok show ?thesis by (simp add: ledger_ok_emit)
    next
      case (Inr lp)
      have eq: "pcw_open h desc ip port protocol svc p = open_locked h lp port svc p"
        unfolding pcw_open_def using local tcpudp Inr by (simp only: if_False if_True sum.case)
      from Inr have "LProtocol lp = ProtocolTCP \<or> LProtocol lp = ProtocolUDP"
        "IPFamily lp = ''''" "IP lp = ip" "ip = '''' \<or> ParseIP h ip"
        by (auto simp: NewLocalPort_cases split: if_splits)
      with local ok have "ledger_ok h (snd (open_locked h lp port svc p))"
        by (intro ledger_ok_open_locked) auto
      with eq show ?thesis by simp
    qed
  qed
qed

lemma ledger_ok_close:
  assumes ok: "ledger_ok h p"
  shows "ledger_ok h (snd (pcw_close h desc ip port protocol svc p))"
  using ok unfolding pcw_close_def
  by (simp add: ledger_ok_close_locked split: sum.split)

lemma reachable_ledger_ok: "reachable h p \<Longrightarrow> ledger_ok h p"
proof (induction rule: reachable.induct)
  case (init rec las os0)
  show ?case by (simp add: ledger_ok_def newPortClaimWatcher_def)
next
  case (step_open p desc ip port protocol svc)
  then show ?case by (simp add: ledger_ok_open)
next
  case (step_close p desc ip port protocol svc)
  then show ?case by (simp add: ledger_ok_close)
next
  case (step_os p os')
  then show ?case by (simp add: ledger_ok_def)
qed

lemma tracked_key:
  assumes "ledger_ok h p" and "portsMap p (claimKey desc ip port protocol) = Some c"
  shows "(protocol = ProtocolTCP \<or> protocol = ProtocolUDP) \<and>
         (ip = '''' \<or> (localAddrSet p ip \<noteq> None \<and> ParseIP h ip))"
proof -
  from assms(1) assms(2)
  have "(LProtocol (claimKey desc ip port protocol) = ProtocolTCP \<or>
         LProtocol (claimKey desc ip port protocol) = ProtocolUDP) \<and>
        (IP (claimKey desc ip port protocol) = '''' \<or>
          (localAddrSet p (IP (claimKey desc ip port protocol)) \<noteq> None \<and>
           ParseIP h (IP (claimKey desc ip port protocol))))"
    unfolding ledger_ok_def by blast
  then show ?thesis by (simp add: claimKey_def)
qed

lemma pcw_open_tracked:
  assumes pr: "protocol = ProtocolTCP \<or> protocol = ProtocolUDP"
      and ad: "ip = '''' \<or> (localAddrSet p ip \<noteq> None \<and> ParseIP h ip)"
  shows "pcw_open h desc ip port protocol svc p =
           open_locked h (claimKey desc ip port protocol) port svc p"
proof -
  from pr ad have "NewLocalPort h desc ip '''' (sint port) protocol
      = Inr (claimKey desc ip port protocol)"
    by (intro NewLocalPort_claimKey) auto
  with pr ad show ?thesis unfolding pcw_open_def by auto
qed

lemma pcw_close_tracked:
  assumes pr: "protocol = ProtocolTCP \<or> protocol = ProtocolUDP"
      and ad: "ip = '''' \<or> (localAddrSet p ip \<noteq> None \<and> ParseIP h ip)"
  shows "pcw_close h desc ip port protocol svc p =
           close_locked h (claimKey desc ip port protocol) port svc p"
proof -
  from pr ad have "NewLocalPort h desc ip '''' (sint port) protocol
      = Inr (claimKey desc ip port protocol)"
    by (intro NewLocalPort_claimKey) auto
  with pr ad show ?thesis unfolding pcw_close_def by auto
qed

lemma watcher1_eq:
  "watcher1 = watcher0\<lparr>os := Suc 0,
      portsMap := [claimKey ''nodePort for ns1/svcA'' '''' 30080 ProtocolTCP
                     \<mapsto> claimKey ''nodePort for ns1/svcA'' '''' 30080 ProtocolTCP]\<rparr>"
  unfolding watcher1_def
  by (simp add: pcw_open_tracked open_locked_cases watcher0_def newPortClaimWatcher_def
        okHost_def testHost_def)

lemma watcher1b_eq:
  "watcher1b = watcher0\<lparr>os := Suc 0,
      portsMap := [claimKey ''nodePort for ns1/svcA'' '''' 30080 ProtocolTCP
                     \<mapsto> claimKey ''nodePort for ns1/svcA'' '''' 30080 ProtocolTCP]\<rparr>"
  unfolding watcher1b_def
  by (simp add: pcw_open_tracked open_locked_cases watcher0_def newPortClaimWatcher_def
        badCloseHost_def testHost_def)

text \<open>
  \<open>handleService\<close> runs its handler over the extracted claims in order: the nested
  loops of the source against the flat pass of the specification.
\<close>

lemma drivePass_append:
  "drivePass u operation (xs @ ys) s =
     (case drivePass u operation xs s of
        (e1, s1) \<Rightarrow> (case drivePass u operation ys s1 of (e2, s2) \<Rightarrow> (e1 @ e2, s2)))"
  by (induction xs arbitrary: s) (simp_all split: prod.split)

lemma handleExternalIPs_drivePass:
  "handleExternalIPs u svc handler sp ips (errors, s) =
     (case drivePass u handler (map (externalIPClaim svc sp) ips) s of
        (e, s') \<Rightarrow> (errors @ e, s'))"
proof (induction ips arbitrary: errors s)
  case Nil
  show ?case by simp
next
  case (Cons externalIP rest)
  have step: "handlePort u (getDescription (Name sp) svc False) svc externalIP
                (Port sp) (Protocol sp) handler s
              = driveClaim u handler (externalIPClaim svc sp externalIP) s"
    by (simp add: handlePort_def driveClaim_def externalIPClaim_def split: option.split)
  show ?case
    by (simp add: step Cons.IH split: prod.split option.split)
qed

lemma handleNodePort_drivePass:
  "handleNodePort u svc handler sp (errors, s) =
     (case drivePass u handler (nodePortClaims u svc sp) s of
        (e, s') \<Rightarrow> (errors @ e, s'))"
  by (simp add: handleNodePort_def nodePortClaims_def handlePort_def driveClaim_def
           split: prod.split option.split)

lemma handleSvcPorts_drivePass:
  "handleSvcPorts u svc handler sps (errors, s) =
     (case drivePass u handler
             (concat (map (\<lambda>sp. nodePortClaims u svc sp @
                                 map (externalIPClaim svc sp) (elems (ExternalIPs svc))) sps)) s of
        (e, s') \<Rightarrow> (errors @ e, s'))"
proof (induction sps arbitrary: errors s)
  case Nil
  show ?case by simp
next
  case (Cons sp rest)
  show ?case
    by (simp add: handleNodePort_drivePass handleExternalIPs_drivePass Cons.IH
          drivePass_append split: prod.split)
qed

lemma handleService_drivePass:
  "handleService u svc handler s = drivePass u handler (Extractor u svc) s"
  by (simp add: handleService_def Extractor_def handleSvcPorts_drivePass split: prod.split)

lemma Extractor_svcA:
  "Extractor specUtil svcA =
     [\<lparr>claim_description = ''nodePort for ns1/svcA'', claim_address = '''',
       claim_port = 30080, claim_protocol = ''TCP'', claim_owner = svcA\<rparr>]"
  by (simp add: Extractor_def nodePortClaims_def specUtil_def svcA_def elems_def
        getDescription_def nodePortDescr_def)

lemma Extractor_svcA_externalIP:
  "Extractor specUtil (svcA\<lparr>ExternalIPs := Some [''10.0.0.1'']\<rparr>) =
     [\<lparr>claim_description = ''nodePort for ns1/svcA'', claim_address = '''',
       claim_port = 30080, claim_protocol = ''TCP'',
       claim_owner = svcA\<lparr>ExternalIPs := Some [''10.0.0.1'']\<rparr>\<rparr>,
      \<lparr>claim_description = ''externalIP for ns1/svcA'', claim_address = ''10.0.0.1'',
       claim_port = 8080, claim_protocol = ''TCP'',
       claim_owner = svcA\<lparr>ExternalIPs := Some [''10.0.0.1'']\<rparr>\<rparr>]"
  by (simp add: Extractor_def nodePortClaims_def externalIPClaim_def specUtil_def svcA_def
        elems_def getDescription_def nodePortDescr_def externalPortDescr_def)

lemma Extractor_svcA_junk:
  "Extractor specUtil svcA_junk =
     [\<lparr>claim_description = ''nodePort for ns1/svcA'', claim_address = '''',
       claim_port = 30080, claim_protocol = ''TCP'', claim_owner = svcA_junk\<rparr>]"
  by (simp add: Extractor_def nodePortClaims_def specUtil_def svcA_junk_def svcA_def elems_def
        getDescription_def nodePortDescr_def)

lemma ValidatePort_specUtil:
  "ValidatePort specUtil ''TCP'' 30080 = None" "ValidatePort specUtil ''TCP'' 8080 = None"
  by (simp_all add: specUtil_def ProtocolTCP_def)

lemma addServicePortClaim_svcA:
  "addServicePortClaim specUtil (portHandler okHost) svcA watcher0 = ([], watcher1)"
proof -
  have "pcw_open okHost ''nodePort for ns1/svcA'' '''' 30080 ''TCP'' svcA watcher0
          = (None, watcher1)"
    unfolding watcher1_def ProtocolTCP_def
    by (simp add: pcw_open_def NewLocalPort_def open_locked_def watcher0_def
          newPortClaimWatcher_def okHost_def testHost_def ProtocolTCP_def ProtocolUDP_def)
  then show ?thesis
    by (simp add: addServicePortClaim_def handleService_drivePass Extractor_svcA driveClaim_def
          ValidatePort_specUtil portHandler_def)
qed

subsection \<open>Opening a claim twice\<close>

text \<open>
  C1. In every state the watcher can be in, \<open>open\<close> for a claim whose identity
  (description, address, port, protocol) is a key of \<open>portsMap\<close> returns the error
  "error try to open socket ... again" and the state it was called in: \<open>portsMap\<close>
  is the same, the entry keeps its handle, no event is recorded and the host is not
  called.
\<close>

theorem open_duplicate:
  assumes "reachable h p"
      and "portsMap p (claimKey desc ip port protocol) \<noteq> None"
  shows "pcw_open h desc ip port protocol svc p =
           (Some (OpenAgain (Namespace svc) (SvcName svc) port), p)"
proof -
  from assms(2) obtain c where c: "portsMap p (claimKey desc ip port protocol) = Some c"
    by blast
  from tracked_key [OF reachable_ledger_ok [OF assms(1)] c]
  have pr: "protocol = ProtocolTCP \<or> protocol = ProtocolUDP"
    and ad: "ip = '''' \<or> (localAddrSet p ip \<noteq> None \<and> ParseIP h ip)" by blast+
  show ?thesis
    by (simp add: pcw_open_tracked [OF pr ad] open_locked_cases c)
qed


theorem open_duplicate_witness:
  "reachable okHost watcher1 \<and>
   portsMap watcher1 (claimKey ''nodePort for ns1/svcA'' '''' 30080 ProtocolTCP) \<noteq> None \<and>
   pcw_open okHost ''nodePort for ns1/svcA'' '''' 30080 ProtocolTCP svcA watcher1 =
     (Some (OpenAgain ''ns1'' ''svcA'' 30080), watcher1)"
proof -
  have r: "reachable okHost watcher1"
    unfolding watcher1_def watcher0_def by (rule step_open) (rule init)
  have k: "portsMap watcher1 (claimKey ''nodePort for ns1/svcA'' '''' 30080 ProtocolTCP) \<noteq> None"
    by (simp add: watcher1_eq)
  from open_duplicate [OF r k, of svcA] r k show ?thesis
    by (simp add: svcA_def)
qed

subsection \<open>Closing a tracked claim\<close>

text \<open>
  C3. In every state the watcher can be in, \<open>close\<close> for a claim whose identity is a
  key of \<open>portsMap\<close> calls \<open>Close\<close> on the handle stored there. When \<open>Close\<close>
  returns an error, \<open>close\<close> returns "error closing socket ..., err: ..." and
  \<open>portsMap\<close> is what it was, the entry included; when \<open>Close\<close> returns nil,
  \<open>close\<close> returns nil and the entry is deleted.
\<close>

theorem close_release_failure:
  assumes "reachable h p"
      and "portsMap p (claimKey desc ip port protocol) = Some c"
  shows "(\<forall>err. fst (Close h c (os p)) = Some err \<longrightarrow>
            pcw_close h desc ip port protocol svc p =
              (Some (ClosingSocket (Namespace svc) (SvcName svc) port err),
               p\<lparr>os := snd (Close h c (os p))\<rparr>) \<and>
            portsMap (snd (pcw_close h desc ip port protocol svc p)) = portsMap p) \<and>
         (fst (Close h c (os p)) = None \<longrightarrow>
            pcw_close h desc ip port protocol svc p =
              (None, p\<lparr>os := snd (Close h c (os p)),
                        portsMap := (portsMap p)(claimKey desc ip port protocol := None)\<rparr>))"
proof -
  from tracked_key [OF reachable_ledger_ok [OF assms(1)] assms(2)]
  have pr: "protocol = ProtocolTCP \<or> protocol = ProtocolUDP"
    and ad: "ip = '''' \<or> (localAddrSet p ip \<noteq> None \<and> ParseIP h ip)" by blast+
  show ?thesis
    by (simp add: pcw_close_tracked [OF pr ad] close_locked_cases assms(2))
qed

theorem close_release_failure_witness:
  "reachable badCloseHost watcher1b \<and> reachable okHost watcher1 \<and>
   portsMap watcher1b (claimKey ''nodePort for ns1/svcA'' '''' 30080 ProtocolTCP)
     = Some (claimKey ''nodePort for ns1/svcA'' '''' 30080 ProtocolTCP) \<and>
   pcw_close badCloseHost ''nodePort for ns1/svcA'' '''' 30080 ProtocolTCP svcA watcher1b =
     (Some (ClosingSocket ''ns1'' ''svcA'' 30080 ''close: bad file descriptor''),
      watcher1b\<lparr>os := 2\<rparr>) \<and>
   pcw_close okHost ''nodePort for ns1/svcA'' '''' 30080 ProtocolTCP svcA watcher1 =
     (None, watcher0\<lparr>os := 2\<rparr>)"
proof -
  let ?k = "claimKey ''nodePort for ns1/svcA'' '''' 30080 ProtocolTCP"
  have rb: "reachable badCloseHost watcher1b"
    unfolding watcher1b_def watcher0_def by (rule step_open) (rule init)
  have r: "reachable okHost watcher1"
    unfolding watcher1_def watcher0_def by (rule step_open) (rule init)
  have kb: "portsMap watcher1b ?k = Some ?k" by (simp add: watcher1b_eq)
  have k: "portsMap watcher1 ?k = Some ?k" by (simp add: watcher1_eq)
  have fb: "fst (Close badCloseHost ?k (os watcher1b)) = Some ''close: bad file descriptor''"
    by (simp add: badCloseHost_def testHost_def)
  have sb: "snd (Close badCloseHost ?k (os watcher1b)) = 2"
    by (simp add: badCloseHost_def testHost_def watcher1b_eq)
  have f: "fst (Close okHost ?k (os watcher1)) = None"
    by (simp add: okHost_def testHost_def)
  have s: "snd (Close okHost ?k (os watcher1)) = 2"
    by (simp add: okHost_def testHost_def watcher1_eq)
  have e: "watcher1\<lparr>os := 2, portsMap := (portsMap watcher1)(?k := None)\<rparr> = watcher0\<lparr>os := 2\<rparr>"
    by (simp add: watcher1_eq watcher0_def newPortClaimWatcher_def)
  from close_release_failure [OF rb kb, of svcA] fb sb
  have 1: "pcw_close badCloseHost ''nodePort for ns1/svcA'' '''' 30080 ProtocolTCP svcA watcher1b =
     (Some (ClosingSocket ''ns1'' ''svcA'' 30080 ''close: bad file descriptor''),
      watcher1b\<lparr>os := 2\<rparr>)"
    by (simp add: svcA_def)
  from close_release_failure [OF r k, of svcA] f s e
  have 2: "pcw_close okHost ''nodePort for ns1/svcA'' '''' 30080 ProtocolTCP svcA watcher1 =
     (None, watcher0\<lparr>os := 2\<rparr>)"
    by simp
  from rb r kb 1 2 show ?thesis by simp
qed

subsection \<open>SCTP\<close>

text \<open>
  C5. For the protocol SCTP, whatever the description, address, port, Service and
  state, \<open>open\<close> and \<open>close\<close> return nil and the state they were called in:
  \<open>portsMap\<close> is untouched, and so is the host, which only \<open>OpenLocalPort\<close> and
  \<open>Close\<close> change.
\<close>

theorem sctp_noop:
  "pcw_open h desc ip port ProtocolSCTP svc p = (None, p) \<and>
   pcw_close h desc ip port ProtocolSCTP svc p = (None, p)"
  by (simp add: pcw_open_def pcw_close_def)

subsection \<open>Closing what was never opened\<close>

text \<open>
  C7. For a TCP or UDP claim whose address is empty or a key of \<open>localAddrSet\<close>
  (the keys being IP strings) and whose identity is no key of \<open>portsMap\<close>,
  \<open>close\<close> returns "error closing socket ..., port was never opened...?" and the
  state it was called in: no \<open>Close\<close> is called and \<open>portsMap\<close> is untouched.
\<close>

theorem close_untracked:
  assumes "localAddrs_are_IPs h p"
      and "protocol = ProtocolTCP \<or> protocol = ProtocolUDP"
      and "ip = '''' \<or> localAddrSet p ip \<noteq> None"
      and "portsMap p (claimKey desc ip port protocol) = None"
  shows "pcw_close h desc ip port protocol svc p =
           (Some (NeverOpened (Namespace svc) (SvcName svc) port), p)"
proof -
  from assms(1) assms(3) have ad: "ip = '''' \<or> (localAddrSet p ip \<noteq> None \<and> ParseIP h ip)"
    unfolding localAddrs_are_IPs_def by auto
  show ?thesis
    by (simp add: pcw_close_tracked [OF assms(2) ad] close_locked_cases assms(4))
qed

theorem close_untracked_witness:
  "localAddrs_are_IPs okHost watcher1 \<and> localAddrSet watcher1 ''10.0.0.1'' \<noteq> None \<and>
   pcw_close okHost ''externalIP for ns1/svcA'' ''10.0.0.1'' 8080 ProtocolUDP svcA watcher1 =
     (Some (NeverOpened ''ns1'' ''svcA'' 8080), watcher1) \<and>
   pcw_close okHost ''nodePort for ns1/svcA'' '''' 30080 ProtocolTCP svcA watcher0 =
     (Some (NeverOpened ''ns1'' ''svcA'' 30080), watcher0)"
proof -
  have i1: "localAddrs_are_IPs okHost watcher1"
    by (simp add: localAddrs_are_IPs_def watcher1_eq watcher0_def newPortClaimWatcher_def
          okHost_def testHost_def)
  have i0: "localAddrs_are_IPs okHost watcher0"
    by (simp add: localAddrs_are_IPs_def watcher0_def newPortClaimWatcher_def
          okHost_def testHost_def)
  have a: "localAddrSet watcher1 ''10.0.0.1'' \<noteq> None"
    by (simp add: watcher1_eq watcher0_def newPortClaimWatcher_def)
  have k: "portsMap watcher1 (claimKey ''externalIP for ns1/svcA'' ''10.0.0.1'' 8080 ProtocolUDP) = None"
    by (simp add: watcher1_eq claimKey_def)
  have k0: "portsMap watcher0 (claimKey ''nodePort for ns1/svcA'' '''' 30080 ProtocolTCP) = None"
    by (simp add: watcher0_def newPortClaimWatcher_def)
  from close_untracked [OF i1, of ProtocolUDP "''10.0.0.1''"
        "''externalIP for ns1/svcA''" 8080 svcA] a k
       close_untracked [OF i0, of ProtocolTCP "''''"
        "''nodePort for ns1/svcA''" 30080 svcA] k0
  have "pcw_close okHost ''externalIP for ns1/svcA'' ''10.0.0.1'' 8080 ProtocolUDP svcA watcher1 =
     (Some (NeverOpened ''ns1'' ''svcA'' 8080), watcher1) \<and>
   pcw_close okHost ''nodePort for ns1/svcA'' '''' 30080 ProtocolTCP svcA watcher0 =
     (Some (NeverOpened ''ns1'' ''svcA'' 30080), watcher0)"
    by (simp add: svcA_def)
  with i1 a show ?thesis by simp
qed

subsection \<open>Open, then close\<close>

text \<open>
  C6. For a TCP or UDP claim whose address is empty or parses as an IP and whose
  identity is no key of \<open>portsMap\<close>: when \<open>OpenLocalPort\<close> succeeds on it with a
  handle, and \<open>Close\<close> succeeds on that handle afterwards, \<open>open\<close> returns nil,
  \<open>close\<close> called next returns nil, and \<open>portsMap\<close> is then what it was before the
  two calls, with no entry for the identity. When the address is empty or local, the
  entry was there in between, holding the handle.
\<close>

theorem open_close_round_trip:
  assumes pr: "protocol = ProtocolTCP \<or> protocol = ProtocolUDP"
      and valid: "ip = '''' \<or> ParseIP h ip"
      and absent: "portsMap p (claimKey desc ip port protocol) = None"
      and os_open: "fst (OpenLocalPort h (claimKey desc ip port protocol) (os p)) = Inr c"
      and os_close:
        "fst (Close h c (snd (OpenLocalPort h (claimKey desc ip port protocol) (os p)))) = None"
  shows "fst (pcw_open h desc ip port protocol svc p) = None \<and>
         (ip = '''' \<or> localAddrSet p ip \<noteq> None \<longrightarrow>
            portsMap (snd (pcw_open h desc ip port protocol svc p))
              (claimKey desc ip port protocol) = Some c) \<and>
         fst (pcw_close h desc ip port protocol svc
                (snd (pcw_open h desc ip port protocol svc p))) = None \<and>
         portsMap (snd (pcw_close h desc ip port protocol svc
                          (snd (pcw_open h desc ip port protocol svc p)))) = portsMap p \<and>
         portsMap (snd (pcw_close h desc ip port protocol svc
                          (snd (pcw_open h desc ip port protocol svc p))))
           (claimKey desc ip port protocol) = None"
proof (cases "ip \<noteq> '''' \<and> localAddrSet p ip = None")
  case True
  then have o: "pcw_open h desc ip port protocol svc p = (None, p)"
    by (simp add: pcw_open_def)
  from True pr have c: "pcw_close h desc ip port protocol svc p = (None, p)"
    by (simp add: pcw_close_def)
  from True absent show ?thesis by (simp add: o c)
next
  case False
  let ?k = "claimKey desc ip port protocol"
  let ?p1 = "p\<lparr>os := snd (OpenLocalPort h ?k (os p)), portsMap := (portsMap p)(?k \<mapsto> c)\<rparr>"
  from False valid have ad: "ip = '''' \<or> (localAddrSet p ip \<noteq> None \<and> ParseIP h ip)"
    by auto
  have o: "pcw_open h desc ip port protocol svc p = (None, ?p1)"
    by (simp add: pcw_open_tracked [OF pr ad] open_locked_cases absent os_open)
  from ad have ad1: "ip = '''' \<or> (localAddrSet ?p1 ip \<noteq> None \<and> ParseIP h ip)"
    by simp
  have m: "(portsMap p)(?k := None) = portsMap p"
    using absent by (rule fun_upd_idem)
  have c: "pcw_close h desc ip port protocol svc ?p1 =
             (None, ?p1\<lparr>os := snd (Close h c (os ?p1)), portsMap := portsMap p\<rparr>)"
    using os_close by (simp add: pcw_close_tracked [OF pr ad1] close_locked_cases m)
  from absent show ?thesis by (simp add: o c)
qed

theorem open_close_round_trip_witness:
  "fst (pcw_open okHost ''externalIP for ns1/svcA'' ''10.0.0.1'' 8080 ProtocolUDP svcA watcher1)
     = None \<and>
   portsMap (snd (pcw_open okHost ''externalIP for ns1/svcA'' ''10.0.0.1'' 8080 ProtocolUDP
                    svcA watcher1))
     (claimKey ''externalIP for ns1/svcA'' ''10.0.0.1'' 8080 ProtocolUDP)
     = Some (claimKey ''externalIP for ns1/svcA'' ''10.0.0.1'' 8080 ProtocolUDP) \<and>
   fst (pcw_close okHost ''externalIP for ns1/svcA'' ''10.0.0.1'' 8080 ProtocolUDP svcA
          (snd (pcw_open okHost ''externalIP for ns1/svcA'' ''10.0.0.1'' 8080 ProtocolUDP
                  svcA watcher1))) = None \<and>
   portsMap (snd (pcw_close okHost ''externalIP for ns1/svcA'' ''10.0.0.1'' 8080 ProtocolUDP svcA
          (snd (pcw_open okHost ''externalIP for ns1/svcA'' ''10.0.0.1'' 8080 ProtocolUDP
                  svcA watcher1)))) = portsMap watcher1"
proof -
  let ?k = "claimKey ''externalIP for ns1/svcA'' ''10.0.0.1'' 8080 ProtocolUDP"
  have v: "''10.0.0.1'' = '''' \<or> ParseIP okHost ''10.0.0.1''"
    by (simp add: okHost_def testHost_def)
  have l: "localAddrSet watcher1 ''10.0.0.1'' \<noteq> None"
    by (simp add: watcher1_eq watcher0_def newPortClaimWatcher_def)
  have a: "portsMap watcher1 ?k = None"
    by (simp add: watcher1_eq claimKey_def)
  have oo: "fst (OpenLocalPort okHost ?k (os watcher1)) = Inr ?k"
    by (simp add: okHost_def testHost_def)
  have oc: "fst (Close okHost ?k (snd (OpenLocalPort okHost ?k (os watcher1)))) = None"
    by (simp add: okHost_def testHost_def)
  from open_close_round_trip [of ProtocolUDP "''10.0.0.1''" okHost watcher1
         "''externalIP for ns1/svcA''" 8080 ?k svcA, OF _ v a oo oc] l
  show ?thesis by simp
qed

subsection \<open>Two descriptions for one socket\<close>

text \<open>
  C4. Two claims with the same address, port and protocol and different descriptions
  have different keys. After an \<open>open\<close> of the first that returned nil, \<open>open\<close> of
  the second (not a key of \<open>portsMap\<close> before) never returns "error try to open
  socket ... again"; and for a TCP or UDP claim with an empty or local address, when
  \<open>OpenLocalPort\<close> succeeds for the second, \<open>open\<close> returns nil and \<open>portsMap\<close>
  holds both keys, each with its own handle.
\<close>

theorem distinct_descriptions:
  assumes diff: "desc1 \<noteq> desc2"
      and absent2: "portsMap p (claimKey desc2 ip port protocol) = None"
      and open1: "fst (pcw_open h desc1 ip port protocol svc1 p) = None"
  shows "let p1 = snd (pcw_open h desc1 ip port protocol svc1 p);
             p2 = snd (pcw_open h desc2 ip port protocol svc2 p1)
         in (\<forall>ns n pt. fst (pcw_open h desc2 ip port protocol svc2 p1)
                          \<noteq> Some (OpenAgain ns n pt)) \<and>
            ((protocol = ProtocolTCP \<or> protocol = ProtocolUDP) \<and>
             (ip = '''' \<or> (localAddrSet p ip \<noteq> None \<and> ParseIP h ip)) \<and>
             fst (OpenLocalPort h (claimKey desc2 ip port protocol) (os p1)) = Inr c2 \<longrightarrow>
               fst (pcw_open h desc2 ip port protocol svc2 p1) = None \<and>
               portsMap p2 (claimKey desc1 ip port protocol) \<noteq> None \<and>
               portsMap p2 (claimKey desc2 ip port protocol) = Some c2 \<and>
               claimKey desc1 ip port protocol \<noteq> claimKey desc2 ip port protocol)"
proof -
  let ?k1 = "claimKey desc1 ip port protocol"
  let ?k2 = "claimKey desc2 ip port protocol"
  let ?p1 = "snd (pcw_open h desc1 ip port protocol svc1 p)"
  let ?r2 = "pcw_open h desc2 ip port protocol svc2 ?p1"
  from diff have ne: "?k1 \<noteq> ?k2" by (simp add: claimKey_def)
  have keep: "portsMap ?p1 ?k2 = None"
  proof (cases "(protocol = ProtocolTCP \<or> protocol = ProtocolUDP) \<and>
                 (ip = '''' \<or> (localAddrSet p ip \<noteq> None \<and> ParseIP h ip))")
    case True
    then have "pcw_open h desc1 ip port protocol svc1 p = open_locked h ?k1 port svc1 p"
      by (intro pcw_open_tracked) auto
    with absent2 ne show ?thesis
      by (simp add: open_locked_cases emitPortClaimEvent_def)
  next
    case False
    then have "portsMap ?p1 = portsMap p"
      by (auto simp: pcw_open_def NewLocalPort_cases emitPortClaimEvent_def)
    with absent2 show ?thesis by simp
  qed
  have nodup: "fst ?r2 \<noteq> Some (OpenAgain ns n pt)" for ns n pt
  proof (cases "(protocol = ProtocolTCP \<or> protocol = ProtocolUDP) \<and>
                 (ip = '''' \<or> (localAddrSet ?p1 ip \<noteq> None \<and> ParseIP h ip))")
    case True
    then have "?r2 = open_locked h ?k2 port svc2 ?p1"
      by (intro pcw_open_tracked) auto
    with keep show ?thesis by (simp add: open_locked_cases)
  next
    case False
    then show ?thesis
      by (auto simp: pcw_open_def NewLocalPort_cases)
  qed
  have both: "fst ?r2 = None \<and> portsMap (snd ?r2) ?k1 \<noteq> None \<and> portsMap (snd ?r2) ?k2 = Some c2"
    if pr: "protocol = ProtocolTCP \<or> protocol = ProtocolUDP"
      and ad: "ip = '''' \<or> (localAddrSet p ip \<noteq> None \<and> ParseIP h ip)"
      and o2: "fst (OpenLocalPort h ?k2 (os ?p1)) = Inr c2"
  proof -
    have e1: "pcw_open h desc1 ip port protocol svc1 p = open_locked h ?k1 port svc1 p"
      by (rule pcw_open_tracked [OF pr ad])
    from open1 have in1: "portsMap ?p1 ?k1 \<noteq> None"
      unfolding e1 by (simp add: open_locked_cases split: if_splits)
    from ad have ad1: "ip = '''' \<or> (localAddrSet ?p1 ip \<noteq> None \<and> ParseIP h ip)"
      by (simp add: localAddrSet_open)
    have e2: "?r2 = open_locked h ?k2 port svc2 ?p1"
      by (rule pcw_open_tracked [OF pr ad1])
    from keep o2 in1 ne show ?thesis
      unfolding e2 by (simp add: open_locked_cases)
  qed
  from both ne
  have two: "(protocol = ProtocolTCP \<or> protocol = ProtocolUDP) \<and>
             (ip = '''' \<or> (localAddrSet p ip \<noteq> None \<and> ParseIP h ip)) \<and>
             fst (OpenLocalPort h ?k2 (os ?p1)) = Inr c2 \<longrightarrow>
               fst ?r2 = None \<and> portsMap (snd ?r2) ?k1 \<noteq> None \<and>
               portsMap (snd ?r2) ?k2 = Some c2 \<and> ?k1 \<noteq> ?k2"
    by (intro impI) (elim conjE, intro conjI, simp_all)
  from nodup have "\<forall>ns n pt. fst ?r2 \<noteq> Some (OpenAgain ns n pt)" by (intro allI)
  with two show ?thesis unfolding Let_def by (intro conjI)
qed


theorem distinct_descriptions_witness:
  "getDescription '''' svcA True = ''nodePort for ns1/svcA'' \<and>
   getDescription ''web'' svcB True = ''nodePort for ns2/svcB:web'' \<and>
   fst (pcw_open okHost ''nodePort for ns1/svcA'' '''' 30080 ProtocolTCP svcA watcher0) = None \<and>
   pcw_open okHost ''nodePort for ns2/svcB:web'' '''' 30080 ProtocolTCP svcB watcher1 =
     (None, watcher0\<lparr>os := 2,
        portsMap := [claimKey ''nodePort for ns1/svcA'' '''' 30080 ProtocolTCP
                       \<mapsto> claimKey ''nodePort for ns1/svcA'' '''' 30080 ProtocolTCP,
                     claimKey ''nodePort for ns2/svcB:web'' '''' 30080 ProtocolTCP
                       \<mapsto> claimKey ''nodePort for ns2/svcB:web'' '''' 30080 ProtocolTCP]\<rparr>) \<and>
   portsMap (snd (pcw_open okHost ''nodePort for ns2/svcB:web'' '''' 30080 ProtocolTCP svcB watcher1))
     (claimKey ''nodePort for ns1/svcA'' '''' 30080 ProtocolTCP) \<noteq> None \<and>
   portsMap (snd (pcw_open okHost ''nodePort for ns2/svcB:web'' '''' 30080 ProtocolTCP svcB watcher1))
     (claimKey ''nodePort for ns2/svcB:web'' '''' 30080 ProtocolTCP)
     = Some (claimKey ''nodePort for ns2/svcB:web'' '''' 30080 ProtocolTCP)"
proof -
  let ?d1 = "''nodePort for ns1/svcA''" and ?d2 = "''nodePort for ns2/svcB:web''"
  let ?k2 = "claimKey ?d2 '''' 30080 ProtocolTCP"
  have g: "getDescription '''' svcA True = ?d1" "getDescription ''web'' svcB True = ?d2"
    by (simp_all add: getDescription_def nodePortDescr_def svcA_def svcB_def)
  have d: "?d1 \<noteq> ?d2" by simp
  have a: "portsMap watcher0 ?k2 = None"
    by (simp add: watcher0_def newPortClaimWatcher_def)
  have o1: "fst (pcw_open okHost ?d1 '''' 30080 ProtocolTCP svcA watcher0) = None"
    by (simp add: pcw_open_tracked open_locked_cases watcher0_def newPortClaimWatcher_def
          okHost_def testHost_def)
  have o2: "fst (OpenLocalPort okHost ?k2 (os watcher1)) = Inr ?k2"
    by (simp add: okHost_def testHost_def)
  have e: "pcw_open okHost ?d2 '''' 30080 ProtocolTCP svcB watcher1 =
     (None, watcher0\<lparr>os := 2,
        portsMap := [claimKey ?d1 '''' 30080 ProtocolTCP \<mapsto> claimKey ?d1 '''' 30080 ProtocolTCP,
                     ?k2 \<mapsto> ?k2]\<rparr>)"
    by (simp add: pcw_open_tracked open_locked_cases watcher1_eq watcher0_def
          newPortClaimWatcher_def okHost_def testHost_def claimKey_def)
  from distinct_descriptions [OF d a o1, of svcB ?k2] o2
  have "portsMap (snd (pcw_open okHost ?d2 '''' 30080 ProtocolTCP svcB watcher1))
          (claimKey ?d1 '''' 30080 ProtocolTCP) \<noteq> None \<and>
        portsMap (snd (pcw_open okHost ?d2 '''' 30080 ProtocolTCP svcB watcher1)) ?k2 = Some ?k2"
    unfolding Let_def watcher1_def [symmetric] by simp
  with g o1 e show ?thesis by simp
qed

subsection \<open>Update with equal ports and external IPs\<close>

text \<open>
  C8. When \<open>Spec.Ports\<close> of the old and the new Service are deeply equal, and
  \<open>Spec.ExternalIPs\<close> too, \<open>updateServicePortClaim\<close> returns no error and the state it
  was called in, whatever the handler behind \<open>portHandler\<close> is: neither \<open>open\<close> nor
  \<open>close\<close> is called.
\<close>

theorem update_equal_noop:
  assumes "Ports oldSvc = Ports newSvc" and "ExternalIPs oldSvc = ExternalIPs newSvc"
  shows "updateServicePortClaim u ph oldSvc newSvc s = ([], s)"
  using assms by (simp add: updateServicePortClaim_def)

theorem update_equal_noop_witness:
  "Ports svcA = Ports (svcA\<lparr>Type := ''ClusterIP''\<rparr>) \<and>
   ExternalIPs svcA = ExternalIPs (svcA\<lparr>Type := ''ClusterIP''\<rparr>) \<and>
   updateServicePortClaim specUtil logHandler svcA (svcA\<lparr>Type := ''ClusterIP''\<rparr>) [] = ([], []) \<and>
   updateServicePortClaim specUtil (portHandler okHost) svcA (svcA\<lparr>Type := ''ClusterIP''\<rparr>)
     watcher1 = ([], watcher1)"
  using update_equal_noop [of svcA "svcA\<lparr>Type := ''ClusterIP''\<rparr>" specUtil logHandler "[]"]
        update_equal_noop [of svcA "svcA\<lparr>Type := ''ClusterIP''\<rparr>" specUtil
          "portHandler okHost" watcher1]
  by simp

subsection \<open>Update with a difference\<close>

text \<open>
  C2. When \<open>Spec.Ports\<close> or \<open>Spec.ExternalIPs\<close> of the old and the new Service
  differ, \<open>updateServicePortClaim\<close> is \<open>deleteServicePortClaim\<close> on the old Service
  followed by \<open>addServicePortClaim\<close> on the new one in the state the first left, the
  errors of the first followed by the errors of the second; and that is the update of the
  specification: a pass of \<open>close\<close> over every claim extracted from the old Service,
  then a pass of \<open>open\<close> over every claim extracted from the new one, the claims
  common to both included.
\<close>

theorem update_is_delete_then_add:
  assumes "Ports oldSvc \<noteq> Ports newSvc \<or> ExternalIPs oldSvc \<noteq> ExternalIPs newSvc"
  shows "updateServicePortClaim u ph oldSvc newSvc s =
           (case deleteServicePortClaim u ph oldSvc s of
              (errors1, s1) \<Rightarrow>
                (case addServicePortClaim u ph newSvc s1 of
                   (errors2, s2) \<Rightarrow> (errors1 @ errors2, s2))) \<and>
         updateServicePortClaim u ph oldSvc newSvc s = spec_Updated u ph oldSvc newSvc s"
proof -
  from assms have 1: "updateServicePortClaim u ph oldSvc newSvc s =
           (case deleteServicePortClaim u ph oldSvc s of
              (errors1, s1) \<Rightarrow>
                (case addServicePortClaim u ph newSvc s1 of
                   (errors2, s2) \<Rightarrow> (errors1 @ errors2, s2)))"
    unfolding updateServicePortClaim_def by auto
  have 2: "\<dots> = spec_Updated u ph oldSvc newSvc s"
    by (simp add: deleteServicePortClaim_def addServicePortClaim_def spec_Updated_def
          handleService_drivePass)
  from 1 2 show ?thesis by simp
qed


theorem update_is_delete_then_add_witness:
  "ExternalIPs svcA \<noteq> ExternalIPs (svcA\<lparr>ExternalIPs := Some [''10.0.0.1'']\<rparr>) \<and>
   updateServicePortClaim specUtil logHandler svcA
       (svcA\<lparr>ExternalIPs := Some [''10.0.0.1'']\<rparr>) [] =
     ([], [(''close'', ''nodePort for ns1/svcA'', '''', 30080, ''TCP''),
           (''open'', ''nodePort for ns1/svcA'', '''', 30080, ''TCP''),
           (''open'', ''externalIP for ns1/svcA'', ''10.0.0.1'', 8080, ''TCP'')]) \<and>
   Ports svcA \<noteq> Ports svcA_junk \<and>
   updateServicePortClaim specUtil logHandler svcA svcA_junk [] =
     ([], [(''close'', ''nodePort for ns1/svcA'', '''', 30080, ''TCP''),
           (''open'', ''nodePort for ns1/svcA'', '''', 30080, ''TCP'')])"
proof -
  have d: "ExternalIPs svcA \<noteq> ExternalIPs (svcA\<lparr>ExternalIPs := Some [''10.0.0.1'']\<rparr>)"
    by (simp add: svcA_def)
  have sp: "spec_Updated specUtil logHandler svcA (svcA\<lparr>ExternalIPs := Some [''10.0.0.1'']\<rparr>) [] =
     ([], [(''close'', ''nodePort for ns1/svcA'', '''', 30080, ''TCP''),
           (''open'', ''nodePort for ns1/svcA'', '''', 30080, ''TCP''),
           (''open'', ''externalIP for ns1/svcA'', ''10.0.0.1'', 8080, ''TCP'')])"
    by (simp add: spec_Updated_def Extractor_svcA Extractor_svcA_externalIP driveClaim_def
          ValidatePort_specUtil logHandler_def)
  have u: "updateServicePortClaim specUtil logHandler svcA
          (svcA\<lparr>ExternalIPs := Some [''10.0.0.1'']\<rparr>) [] =
        spec_Updated specUtil logHandler svcA (svcA\<lparr>ExternalIPs := Some [''10.0.0.1'']\<rparr>) []"
    by (rule update_is_delete_then_add [OF disjI2 [OF d], THEN conjunct2])
  have dj: "Ports svcA \<noteq> Ports svcA_junk"
    by (simp add: svcA_def svcA_junk_def)
  have spj: "spec_Updated specUtil logHandler svcA svcA_junk [] =
     ([], [(''close'', ''nodePort for ns1/svcA'', '''', 30080, ''TCP''),
           (''open'', ''nodePort for ns1/svcA'', '''', 30080, ''TCP'')])"
    by (simp add: spec_Updated_def Extractor_svcA Extractor_svcA_junk driveClaim_def
          ValidatePort_specUtil logHandler_def)
  have uj: "updateServicePortClaim specUtil logHandler svcA svcA_junk [] =
        spec_Updated specUtil logHandler svcA svcA_junk []"
    by (rule update_is_delete_then_add [OF disjI1 [OF dj], THEN conjunct2])
  from sp d u dj spj uj show ?thesis by (simp only: simp_thms)
qed

subsection \<open>Update that changes only the type\<close>

text \<open>
  C9. There are an old and a new Service with equal \<open>Spec.Ports\<close> and equal
  \<open>Spec.ExternalIPs\<close>, the old of a type with node ports and the new of a type without,
  such that: adding the old one opens a claim of its, which \<open>portsMap\<close> then holds;
  the new one has no claim at all; and the update from old to new calls neither \<open>open\<close>
  nor \<open>close\<close> and leaves the state as it is, the reservation of the old Service
  still held.
\<close>

theorem update_keeps_stale_reservation:
  "\<exists>oldSvc newSvc.
     Ports oldSvc = Ports newSvc \<and> ExternalIPs oldSvc = ExternalIPs newSvc \<and>
     ServiceTypeHasNodePort specUtil oldSvc \<and> \<not> ServiceTypeHasNodePort specUtil newSvc \<and>
     (\<exists>c. c \<in> set (Extractor specUtil oldSvc) \<and>
          addServicePortClaim specUtil (portHandler okHost) oldSvc watcher0 = ([], watcher1) \<and>
          portsMap watcher1 (claimKey (claim_description c) (claim_address c) (claim_port c)
                               (claim_protocol c)) \<noteq> None) \<and>
     Extractor specUtil newSvc = [] \<and>
     (\<forall>handler s. handleService specUtil newSvc handler (s :: (nat, LocalPort) portClaimWatcher)
                    = ([], s)) \<and>
     updateServicePortClaim specUtil (portHandler okHost) oldSvc newSvc watcher1 = ([], watcher1) \<and>
     updateServicePortClaim specUtil logHandler oldSvc newSvc [] = ([], [])"
proof (intro exI conjI)
  let ?new = "svcA\<lparr>Type := ''ClusterIP''\<rparr>"
  show "Ports svcA = Ports ?new" by simp
  show "ExternalIPs svcA = ExternalIPs ?new" by simp
  show "ServiceTypeHasNodePort specUtil svcA" by (simp add: specUtil_def svcA_def)
  show "\<not> ServiceTypeHasNodePort specUtil ?new" by (simp add: specUtil_def)
  show "\<lparr>claim_description = ''nodePort for ns1/svcA'', claim_address = '''',
          claim_port = 30080, claim_protocol = ''TCP'', claim_owner = svcA\<rparr>
        \<in> set (Extractor specUtil svcA)"
    by (simp add: Extractor_svcA)
  show "addServicePortClaim specUtil (portHandler okHost) svcA watcher0 = ([], watcher1)"
    by (rule addServicePortClaim_svcA)
  show "portsMap watcher1
          (claimKey (claim_description \<lparr>claim_description = ''nodePort for ns1/svcA'',
               claim_address = '''', claim_port = 30080, claim_protocol = ''TCP'',
               claim_owner = svcA\<rparr>)
            (claim_address \<lparr>claim_description = ''nodePort for ns1/svcA'',
               claim_address = '''', claim_port = 30080, claim_protocol = ''TCP'',
               claim_owner = svcA\<rparr>)
            (claim_port \<lparr>claim_description = ''nodePort for ns1/svcA'',
               claim_address = '''', claim_port = 30080, claim_protocol = ''TCP'',
               claim_owner = svcA\<rparr>)
            (claim_protocol \<lparr>claim_description = ''nodePort for ns1/svcA'',
               claim_address = '''', claim_port = 30080, claim_protocol = ''TCP'',
               claim_owner = svcA\<rparr>)) \<noteq> None"
    by (simp add: watcher1_eq ProtocolTCP_def)
  show "Extractor specUtil ?new = []"
    by (simp add: Extractor_def specUtil_def svcA_def elems_def)
  show "\<forall>handler s. handleService specUtil ?new handler (s :: (nat, LocalPort) portClaimWatcher)
          = ([], s)"
    by (simp add: handleService_def specUtil_def svcA_def elems_def)
  show "updateServicePortClaim specUtil (portHandler okHost) svcA ?new watcher1 = ([], watcher1)"
    by (simp add: updateServicePortClaim_def)
  show "updateServicePortClaim specUtil logHandler svcA ?new [] = ([], [])"
    by (simp add: updateServicePortClaim_def)
qed

end
